theory Spec2Isabelle
  imports Complex_Main "HOL-Library.Word"
begin

section \<open>JavaScript values as the front end sees them\<close>

text \<open>
  The front end of the wallet is a set of React components written in TypeScript. Their
  event handlers read component state, talk to the backend over HTTP with \<open>fetch\<close>
  and report through toasts and callbacks. The handlers are modelled as functions from the
  component state and the outcome of the network call to the new state and the list of
  effects, in the order the handler performs them.

  A JavaScript string is a sequence of UTF-16 code units, so it is a list of 16-bit words.
  A string literal of the source is written with \<open>lit\<close>.
\<close>

type_synonym jsstring = "16 word list"

definition lit :: "string \<Rightarrow> jsstring" where
  "lit s = map of_char s"

text \<open>
  \<open>String.prototype.trim\<close> removes the code units of the ECMAScript productions
  WhiteSpace and LineTerminator from both ends: TAB, LF, VT, FF, CR, SP, NBSP, the
  other space separators of Unicode, LS, PS and the byte order mark.
\<close>

definition js_whitespace :: "16 word list" where
  "js_whitespace =
     [0x0009, 0x000A, 0x000B, 0x000C, 0x000D, 0x0020, 0x00A0, 0x1680,
      0x2000, 0x2001, 0x2002, 0x2003, 0x2004, 0x2005, 0x2006, 0x2007,
      0x2008, 0x2009, 0x200A, 0x2028, 0x2029, 0x202F, 0x205F, 0x3000, 0xFEFF]"

definition is_whitespace :: "16 word \<Rightarrow> bool" where
  "is_whitespace c = (c \<in> set js_whitespace)"

definition trim :: "jsstring \<Rightarrow> jsstring" where
  "trim s = rev (dropWhile is_whitespace (rev (dropWhile is_whitespace s)))"

text \<open>
  The values a parsed JSON body can hold, and \<open>undefined\<close> for a missing property.
  A number is a double; \<open>JNum\<close> carries the value of a finite one. An object lists
  each of its properties once.
\<close>

datatype jsval =
    JUndefined
  | JNull
  | JBool bool
  | JNum rat
  | JStr jsstring
  | JArr "jsval list"
  | JObj "(jsstring \<times> jsval) list"

text \<open>The truth value of \<open>!!v\<close>.\<close>

fun truthy :: "jsval \<Rightarrow> bool" where
  "truthy JUndefined = False"
| "truthy JNull = False"
| "truthy (JBool b) = b"
| "truthy (JNum n) = (n \<noteq> 0)"
| "truthy (JStr s) = (s \<noteq> [])"
| "truthy (JArr xs) = True"
| "truthy (JObj kvs) = True"

text \<open>
  The text of an error message. A message built from a value that is not a string is kept
  as that value (\<open>new Error(v)\<close> converts it with \<open>String(v)\<close>), and the message
  of an error the engine raises is the engine's own.
\<close>

datatype message = Msg jsstring | MsgOf jsval | EngineMsg

text \<open>
  What a \<open>catch\<close> clause receives: an instance of \<open>Error\<close> with its message, or
  any other thrown value.
\<close>

datatype thrown = ErrorObject message | NotAnError

text \<open>
  Reading the property \<open>k\<close> of \<open>v\<close>. On \<open>null\<close> and \<open>undefined\<close> the
  engine throws a TypeError; an object yields the property or \<open>undefined\<close>. The
  handlers read only \<open>txid\<close>, \<open>error\<close>, \<open>success\<close>, \<open>wallet_id\<close>,
  \<open>onchain_address\<close> and \<open>offchain_address\<close>, which no primitive, array or
  built-in prototype defines, so every other value yields \<open>undefined\<close>.
\<close>

fun get_prop :: "jsval \<Rightarrow> jsstring \<Rightarrow> thrown + jsval" where
  "get_prop JUndefined k = Inl (ErrorObject EngineMsg)"
| "get_prop JNull k = Inl (ErrorObject EngineMsg)"
| "get_prop (JObj kvs) k = Inr (case map_of kvs k of None \<Rightarrow> JUndefined | Some v \<Rightarrow> v)"
| "get_prop v k = Inr JUndefined"

text \<open>
  The outcome of \<open>await fetch(...)\<close> followed by \<open>await response.json()\<close>: the
  request is rejected, or a response arrives with its \<open>ok\<close> flag and a body that
  parses to a value or makes \<open>json()\<close> reject. The body has the type the
  source gives it: \<open>any\<close>, a value inspected at run time, is a \<open>jsval\<close>;
  the body the wallet page stores as its balance has the type of that state,
  \<open>WalletBalance\<close>.
\<close>

datatype 'a fetch_result =
    Rejected thrown
  | Response (ok: bool) (json: "thrown + 'a")

text \<open>
  The requests the front end sends. The value interpolated into a path is kept as it is
  (the template literal converts it to a string). The body of a payment carries the wallet
  id, the address and \<open>Number.parseFloat\<close> of the amount text, which is kept as the
  text. The body of a faucet request carries the address and an amount, kept as the
  decimal number that \<open>JSON.stringify\<close> writes for it.
\<close>

datatype http_request =
    POST_create_wallet
  | GET_get_address jsval
  | GET_get_balance jsval
  | POST_faucet jsstring rat
  | POST_settle jsstring
  | POST_send_to_ark_address jsstring jsstring jsstring

text \<open>
  The effects of a handler that leave the component: a request, a toast with title and
  description, a call of a callback the parent passed in, a pause, and a timer that
  refreshes the balance later. Writes to the console are not modelled.
\<close>

datatype event =
    Fetch http_request
  | ToastError jsstring message
  | ToastSuccess jsstring message
  | OnSuccess
  | OnClose
  | SetIsLoading bool
  | OnWalletCreated jsval jsval jsval
  | OnWalletRestored jsval jsval jsval
  | Sleep nat
  | RefreshBalanceAfter nat
  | RouterPush jsstring

text \<open>The requests among the effects of a handler, in the order they are sent.\<close>

fun requests :: "event list \<Rightarrow> http_request list" where
  "requests [] = []"
| "requests (Fetch r # evs) = r # requests evs"
| "requests (e # evs) = requests evs"

text \<open>A string that is empty or holds white space only.\<close>

definition blank :: "jsstring \<Rightarrow> bool" where
  "blank s = list_all is_whitespace s"

text \<open>
  The description a \<open>catch\<close> clause shows:
  \<open>error instanceof Error ? error.message : fallback\<close>.
\<close>

fun error_description :: "thrown \<Rightarrow> string \<Rightarrow> message" where
  "error_description (ErrorObject m) fallback = m"
| "error_description NotAnError fallback = Msg (lit fallback)"

text \<open>The message of \<open>new Error(v || fallback)\<close>.\<close>

definition error_or :: "jsval \<Rightarrow> string \<Rightarrow> thrown" where
  "error_or v fallback = ErrorObject (if truthy v then MsgOf v else Msg (lit fallback))"

section \<open>The send dialog (send-modal.tsx)\<close>

record send_modal_state =
  address :: jsstring
  amount :: jsstring
  paymentType :: jsstring
  isLoading :: bool

text \<open>
  The description of both success toasts, the template
  \<open>${amount} BTC sent to ${address.substring(0, 8)}...\<close>.
\<close>

definition sent_description :: "send_modal_state \<Rightarrow> message" where
  "sent_description st =
     Msg (amount st @ lit '' BTC sent to '' @ take 8 (address st) @ lit ''...'')"

text \<open>
  The body of the \<open>try\<close> block of \<open>handleSend\<close> up to the success toast: the
  effects performed, and the thrown value when the block is left by an exception. The
  argument \<open>res\<close> is the outcome of the request, should one be sent. An offchain
  payment posts to \<open>send_to_ark_address\<close> and throws unless the body carries a truthy
  \<open>txid\<close>; any other payment type only waits for a second and a half.
\<close>

definition send_payment ::
  "jsstring \<Rightarrow> jsval fetch_result \<Rightarrow> send_modal_state \<Rightarrow> event list \<times> thrown option" where
  "send_payment walletId res st =
     (if paymentType st = lit ''offchain'' then
        let req = [Fetch (POST_send_to_ark_address walletId (address st) (amount st))] in
        (case res of
           Rejected t \<Rightarrow> (req, Some t)
         | Response okay body \<Rightarrow>
             (case body of
                Inl t \<Rightarrow> (req, Some t)
              | Inr data \<Rightarrow>
                  (case get_prop data (lit ''txid'') of
                     Inl t \<Rightarrow> (req, Some t)
                   | Inr txid \<Rightarrow>
                       if \<not> truthy txid then
                         (case get_prop data (lit ''error'') of
                            Inl t \<Rightarrow> (req, Some t)
                          | Inr err \<Rightarrow> (req, Some (error_or err ''Payment failed'')))
                       else
                         (req @ [ToastSuccess (lit ''Payment Sent'') (sent_description st)], None))))
      else
        ([Sleep 1500, ToastSuccess (lit ''Onchain Payment Sent'') (sent_description st)], None))"

text \<open>
  \<open>handleSend\<close>: the check of the two inputs, then the \<open>try\<close> block, whose
  success path calls \<open>onSuccess\<close> and \<open>onClose\<close> (callbacks of the parent, which
  return normally) and clears both inputs, the \<open>catch\<close> clause that shows the
  error, and \<open>finally\<close>, which resets the loading flag.
\<close>

definition handleSend ::
  "jsstring \<Rightarrow> jsval fetch_result \<Rightarrow> send_modal_state \<Rightarrow> send_modal_state \<times> event list" where
  "handleSend walletId res st =
     (if trim (address st) = [] \<or> trim (amount st) = [] then
        (st, [ToastError (lit ''Error'') (Msg (lit ''Please enter both address and amount''))])
      else
        (case send_payment walletId res (st\<lparr>isLoading := True\<rparr>) of
           (evs, None) \<Rightarrow>
             (st\<lparr>address := [], amount := [], isLoading := False\<rparr>, evs @ [OnSuccess, OnClose])
         | (evs, Some t) \<Rightarrow>
             (st\<lparr>isLoading := False\<rparr>,
              evs @ [ToastError (lit ''Error'') (error_description t ''Failed to send payment'')])))"

text \<open>
  Whether the response to \<open>send_to_ark_address\<close> carries a truthy \<open>txid\<close>.
\<close>

definition has_txid :: "jsval fetch_result \<Rightarrow> bool" where
  "has_txid res =
     (case res of
        Rejected t \<Rightarrow> False
      | Response okay body \<Rightarrow>
          (case body of
             Inl t \<Rightarrow> False
           | Inr data \<Rightarrow>
               (case get_prop data (lit ''txid'') of Inl t \<Rightarrow> False | Inr txid \<Rightarrow> truthy txid)))"

section \<open>JavaScript numbers\<close>

text \<open>
  A JavaScript number is an IEEE-754 double: not-a-number, an infinity, negative zero, or
  a finite value (with \<open>Finite 0\<close> for positive zero). A finite double is a rational
  number, and the arithmetic on doubles is the exact arithmetic followed by rounding to
  the nearest double, ties to the even significand.
\<close>

datatype number = NaN | PosInfinity | NegInfinity | NegZero | Finite rat

definition pow2 :: "int \<Rightarrow> rat" where
  "pow2 e = (if 0 \<le> e then 2 ^ nat e else 1 / 2 ^ nat (- e))"

text \<open>The number of binary digits of a positive integer.\<close>

function bit_length :: "int \<Rightarrow> nat" where
  "bit_length n = (if n \<le> 0 then 0 else Suc (bit_length (n div 2)))"
  by pat_completeness auto
termination
  by (relation "measure nat") auto

declare bit_length.simps [simp del]

text \<open>The exponent \<open>e\<close> with \<open>2 ^ e \<le> a < 2 ^ (e + 1)\<close>, for a positive \<open>a\<close>.\<close>

definition binary_exponent :: "rat \<Rightarrow> int" where
  "binary_exponent a =
     (if 1 \<le> a then int (bit_length \<lfloor>a\<rfloor>) - 1
      else let k = int (bit_length \<lfloor>1 / a\<rfloor>) - 1
           in if a * pow2 k = 1 then - k else - (k + 1))"

definition round_half_even :: "rat \<Rightarrow> int" where
  "round_half_even q =
     (let f = \<lfloor>q\<rfloor>; r = q - of_int f
      in if r < 1 / 2 then f else if 1 / 2 < r then f + 1 else if even f then f else f + 1)"

text \<open>
  Rounding a rational number to the nearest double. A double has 53 significant bits, so
  the spacing of the doubles around \<open>x\<close> is \<open>2 ^ (e - 52)\<close> for the exponent
  \<open>e\<close> of \<open>x\<close>, which is at least -1022 (below it the doubles are subnormal); a
  result of \<open>2 ^ 1024\<close> or more is an infinity.
\<close>

definition round_to_double :: "rat \<Rightarrow> number" where
  "round_to_double x =
     (if x = 0 then Finite 0
      else
        let e = max (binary_exponent \<bar>x\<bar>) (- 1022);
            ulp = pow2 (e - 52);
            m = of_int (round_half_even (\<bar>x\<bar> / ulp)) * ulp
        in if pow2 1024 \<le> m then (if x < 0 then NegInfinity else PosInfinity)
           else if m = 0 then (if x < 0 then NegZero else Finite 0)
           else Finite (if x < 0 then - m else m))"

text \<open>
  The operator \<open>+\<close> on two numbers. The sum of two finite doubles that cancel is
  positive zero.
\<close>

fun js_add :: "number \<Rightarrow> number \<Rightarrow> number" where
  "js_add NaN y = NaN"
| "js_add x NaN = NaN"
| "js_add PosInfinity NegInfinity = NaN"
| "js_add NegInfinity PosInfinity = NaN"
| "js_add PosInfinity y = PosInfinity"
| "js_add x PosInfinity = PosInfinity"
| "js_add NegInfinity y = NegInfinity"
| "js_add x NegInfinity = NegInfinity"
| "js_add NegZero y = y"
| "js_add x NegZero = x"
| "js_add (Finite a) (Finite b) = (if a + b = 0 then Finite 0 else round_to_double (a + b))"


text \<open>The decimal digits of an integer that is not negative.\<close>

definition digit :: "int \<Rightarrow> 16 word" where
  "digit d = of_int (48 + d)"

function decimal :: "int \<Rightarrow> jsstring" where
  "decimal n = (if n < 10 then [digit n] else decimal (n div 10) @ [digit (n mod 10)])"
  by pat_completeness auto
termination
  by (relation "measure nat") auto

declare decimal.simps [simp del]

text \<open>
  \<open>Number.prototype.toFixed(8)\<close>. For a finite number below \<open>10 ^ 21\<close> in
  magnitude it takes the integer \<open>n\<close> for which \<open>n / 10 ^ 8\<close> is nearest to the
  magnitude (the larger of two), writes its digits, padded with zeros to nine at least,
  with a point before the last eight, and puts a minus sign in front of a number below
  zero. A number that is not finite is written by name. A finite number of \<open>10 ^ 21\<close>
  or more is written as \<open>String\<close> writes it, which is kept as that number.
\<close>

definition fixed8 :: "int \<Rightarrow> jsstring" where
  "fixed8 n =
     (let m = decimal n;
          padded = replicate (9 - length m) (digit 0) @ m;
          k = length padded - 8
      in take k padded @ lit ''.'' @ drop k padded)"

datatype shown = Text jsstring | StringOf number

fun toFixed8 :: "number \<Rightarrow> shown" where
  "toFixed8 NaN = Text (lit ''NaN'')"
| "toFixed8 PosInfinity = Text (lit ''Infinity'')"
| "toFixed8 NegInfinity = Text (lit ''-Infinity'')"
| "toFixed8 NegZero = Text (fixed8 0)"
| "toFixed8 (Finite r) =
     (if 10 ^ 21 \<le> \<bar>r\<bar> then StringOf (Finite r)
      else Text ((if r < 0 then lit ''-'' else []) @ fixed8 \<lfloor>\<bar>r\<bar> * 10 ^ 8 + 1 / 2\<rfloor>))"


section \<open>The wallet page (wallet-page.tsx)\<close>

text \<open>
  The interface \<open>WalletBalance\<close>, the body of \<open>GET /get_balance\<close>. Its
  amounts are numbers in the display unit. The page stores the parsed body without
  inspecting it, so an amount can be any number, of either sign.
\<close>

record offchain_balance =
  spendable :: number
  expired :: number

record boarding_balance =
  spendable :: number
  expired :: number
  pending :: number

record WalletBalance =
  wallet_id :: jsstring
  offchain_balance :: offchain_balance
  boarding_balance :: boarding_balance

text \<open>
  The state of the component. A state of type \<open>string | null\<close> is an option, and
  \<open>!x\<close> holds of \<open>null\<close> and of the empty string.
\<close>

record wallet_page_state =
  walletId :: "jsstring option"
  onchainAddress :: "jsstring option"
  offchainAddress :: "jsstring option"
  balance :: "WalletBalance option"
  isLoading :: bool
  isSendModalOpen :: bool
  isReceiveModalOpen :: bool

fun falsy :: "jsstring option \<Rightarrow> bool" where
  "falsy None = True"
| "falsy (Some s) = (s = [])"



text \<open>
  \<open>fetchBalance\<close>: every failure (a rejected request, a response that is not ok, a
  body that does not parse) ends in the same toast; a body that parses replaces the
  balance.
\<close>

definition fetchBalance ::
  "jsstring \<Rightarrow> WalletBalance fetch_result \<Rightarrow> wallet_page_state
     \<Rightarrow> wallet_page_state \<times> event list" where
  "fetchBalance ident res st =
     (let req = Fetch (GET_get_balance (JStr ident));
          failed = (st\<lparr>isLoading := False\<rparr>,
                    [req, ToastError (lit ''Error'') (Msg (lit ''Failed to fetch wallet balance''))])
      in case res of
           Rejected t \<Rightarrow> failed
         | Response okay body \<Rightarrow>
             if \<not> okay then failed
             else (case body of
                     Inl t \<Rightarrow> failed
                   | Inr data \<Rightarrow> (st\<lparr>balance := Some data, isLoading := False\<rparr>, [req])))"

definition handleRefresh ::
  "WalletBalance fetch_result \<Rightarrow> wallet_page_state \<Rightarrow> wallet_page_state \<times> event list" where
  "handleRefresh res st =
     (case walletId st of
        None \<Rightarrow> (st, [])
      | Some w \<Rightarrow> if w = [] then (st, []) else fetchBalance w res st)"

text \<open>
  The effect run when the page is mounted: it reads the three entries of the local storage,
  leaves for the landing page when one is missing or empty, and otherwise puts them into
  the state and fetches the balance.
\<close>

definition mount ::
  "(jsstring \<rightharpoonup> jsstring) \<Rightarrow> WalletBalance fetch_result \<Rightarrow> wallet_page_state
     \<Rightarrow> wallet_page_state \<times> event list" where
  "mount localStorage res st =
     (let storedWalletId = localStorage (lit ''wallet_id'');
          storedOnchainAddress = localStorage (lit ''onchain_address'');
          storedOffchainAddress = localStorage (lit ''offchain_address'')
      in if falsy storedWalletId \<or> falsy storedOnchainAddress \<or> falsy storedOffchainAddress then
           (st, [RouterPush (lit ''/'')])
         else
           (case storedWalletId of
              None \<Rightarrow> (st, [RouterPush (lit ''/'')])
            | Some w \<Rightarrow>
                fetchBalance w res
                  (st\<lparr>walletId := storedWalletId, onchainAddress := storedOnchainAddress,
                      offchainAddress := storedOffchainAddress\<rparr>)))"

text \<open>
  The steps \<open>const data = await response.json(); if (!data.flag) throw new
  Error(data.error || fallback)\<close> after a request, shared by the faucet, the settlement
  and the payment: the value thrown, if any.
\<close>

definition await_flag :: "jsval fetch_result \<Rightarrow> string \<Rightarrow> string \<Rightarrow> thrown option" where
  "await_flag res flag fallback =
     (case res of
        Rejected t \<Rightarrow> Some t
      | Response okay body \<Rightarrow>
          (case body of
             Inl t \<Rightarrow> Some t
           | Inr data \<Rightarrow>
               (case get_prop data (lit flag) of
                  Inl t \<Rightarrow> Some t
                | Inr v \<Rightarrow>
                    if \<not> truthy v then
                      (case get_prop data (lit ''error'') of
                         Inl t \<Rightarrow> Some t
                       | Inr err \<Rightarrow> Some (error_or err fallback))
                    else None)))"

text \<open>
  \<open>handleFaucet\<close>: without an onchain address it returns at once. Otherwise it posts
  the address with the amount 0.0001, and on success announces it and sets a timer of two
  seconds that fetches the balance again.
\<close>

definition handleFaucet ::
  "jsval fetch_result \<Rightarrow> wallet_page_state \<Rightarrow> wallet_page_state \<times> event list" where
  "handleFaucet res st =
     (case onchainAddress st of
        None \<Rightarrow> (st, [])
      | Some a \<Rightarrow>
          if a = [] then (st, [])
          else
            (let req = Fetch (POST_faucet a (1 / 10000)) in
             case await_flag res ''success'' ''Faucet request failed'' of
               None \<Rightarrow>
                 (st\<lparr>isLoading := False\<rparr>,
                  [req,
                   ToastSuccess (lit ''Success'')
                     (Msg (lit ''Faucet request successful. Funds will appear shortly.'')),
                   RefreshBalanceAfter 2000])
             | Some t \<Rightarrow>
                 (st\<lparr>isLoading := False\<rparr>,
                  [req, ToastError (lit ''Error'') (error_description t ''Faucet request failed'')])))"

definition handleSettle ::
  "jsval fetch_result \<Rightarrow> wallet_page_state \<Rightarrow> wallet_page_state \<times> event list" where
  "handleSettle res st =
     (case walletId st of
        None \<Rightarrow> (st, [])
      | Some w \<Rightarrow>
          if w = [] then (st, [])
          else
            (let req = Fetch (POST_settle w) in
             case await_flag res ''success'' ''Settlement failed'' of
               None \<Rightarrow>
                 (st\<lparr>isLoading := False\<rparr>,
                  [req,
                   ToastSuccess (lit ''Settlement Successful'')
                     (Msg (lit ''Your funds have been settled successfully.'')),
                   RefreshBalanceAfter 2000])
             | Some t \<Rightarrow>
                 (st\<lparr>isLoading := False\<rparr>,
                  [req, ToastError (lit ''Error'') (error_description t ''Settlement failed'')])))"

section \<open>Creating and restoring a wallet (create-wallet-form.tsx, restore-wallet-form.tsx)\<close>

text \<open>
  The steps \<open>const response = await fetch(...); if (!response.ok) throw new Error(msg);
  const data = await response.json()\<close>: the parsed body, or the value thrown.
\<close>

definition await_ok_json :: "jsval fetch_result \<Rightarrow> string \<Rightarrow> thrown + jsval" where
  "await_ok_json res msg =
     (case res of
        Rejected t \<Rightarrow> Inl t
      | Response okay body \<Rightarrow> if \<not> okay then Inl (ErrorObject (Msg (lit msg))) else body)"



text \<open>
  \<open>handleRestoreWallet\<close> refuses a wallet id that is empty after trimming. Its
  \<open>try\<close> block asks for the addresses of the wallet id as typed, refuses an answer in
  which an address is missing or empty, and hands the three to \<open>onWalletRestored\<close>.
\<close>

definition restore_wallet ::
  "jsstring \<Rightarrow> (jsval \<Rightarrow> jsval fetch_result) \<Rightarrow> event list \<times> thrown option" where
  "restore_wallet wid get_address =
     (let reqs = [SetIsLoading True, Fetch (GET_get_address (JStr wid))] in
      case await_ok_json (get_address (JStr wid)) ''Failed to restore wallet. Invalid wallet ID.'' of
        Inl t \<Rightarrow> (reqs, Some t)
      | Inr addressData \<Rightarrow>
          (case get_prop addressData (lit ''onchain_address'') of
             Inl t \<Rightarrow> (reqs, Some t)
           | Inr onchain_address \<Rightarrow>
               (case get_prop addressData (lit ''offchain_address'') of
                  Inl t \<Rightarrow> (reqs, Some t)
                | Inr offchain_address \<Rightarrow>
                    if \<not> truthy onchain_address \<or> \<not> truthy offchain_address then
                      (reqs, Some (ErrorObject (Msg (lit ''Invalid wallet data received''))))
                    else
                      (reqs @ [OnWalletRestored (JStr wid) onchain_address offchain_address],
                       None))))"

definition handleRestoreWallet ::
  "jsstring \<Rightarrow> (jsval \<Rightarrow> jsval fetch_result) \<Rightarrow> event list" where
  "handleRestoreWallet wid get_address =
     (if trim wid = [] then
        [ToastError (lit ''Error'') (Msg (lit ''Please enter a wallet ID''))]
      else
        (case restore_wallet wid get_address of
           (evs, None) \<Rightarrow> evs @ [SetIsLoading False]
         | (evs, Some t) \<Rightarrow>
             evs @ [ToastError (lit ''Error'') (error_description t ''Failed to restore wallet''),
                    SetIsLoading False]))"

text \<open>The callbacks among the effects: the wallet a form reports to the landing page.\<close>

fun reported :: "event list \<Rightarrow> (jsval \<times> jsval \<times> jsval) list" where
  "reported [] = []"
| "reported (OnWalletCreated w a b # evs) = (w, a, b) # reported evs"
| "reported (OnWalletRestored w a b # evs) = (w, a, b) # reported evs"
| "reported (e # evs) = reported evs"

section \<open>The orchestration core behind the HTTP interface\<close>

text \<open>
  The front end talks to a backend whose sources (the wallet store, the balance
  aggregator, the lock manager and the orchestration service) are not among the files of
  the repository at hand. The definitions of this section follow the specification of that
  core, one definition per operation it names, with amounts in base units (satoshis).
\<close>

type_synonym wallet_ident = string

text \<open>
  Modelled from the spec: the error taxonomy of the orchestration service, whose source is
  missing.
\<close>

datatype service_error =
    NotFound | Busy | Timeout | AdapterUnavailable | FaucetUnavailable
  | InsufficientFunds | InvalidAddress | InvalidAmount
  | SettlementFailed | SendFailed | MalformedBalance | DuplicateId

text \<open>
  Modelled from the spec: what \<open>queryBalance\<close> of the protocol client adapter reports,
  and the aggregated \<open>Balance\<close> view with its offchain and boarding domains. The view
  has no field for a total.
\<close>

record raw_balance =
  offchainSpendable :: int
  offchainExpired :: int
  boardingSpendable :: int
  boardingExpired :: int
  boardingPending :: int

record offchain_domain =
  spendable :: int
  expired :: int

record boarding_domain =
  spendable :: int
  expired :: int
  pending :: int

record Balance =
  offchain :: offchain_domain
  boarding :: boarding_domain

text \<open>
  Modelled from the spec: the balance aggregator, whose source is missing. It fails closed
  with \<open>MalformedBalance\<close> when the adapter reports a negative amount.
\<close>

definition aggregate :: "raw_balance \<Rightarrow> service_error + Balance" where
  "aggregate r =
     (if offchainSpendable r < 0 \<or> offchainExpired r < 0 \<or> boardingSpendable r < 0
         \<or> boardingExpired r < 0 \<or> boardingPending r < 0
      then Inl MalformedBalance
      else Inr \<lparr>offchain = \<lparr>offchain_domain.spendable = offchainSpendable r,
                             expired = offchainExpired r\<rparr>,
                boarding = \<lparr>boarding_domain.spendable = boardingSpendable r,
                             expired = boardingExpired r, pending = boardingPending r\<rparr>\<rparr>)"

text \<open>
  Modelled from the spec: the \<open>WalletSession\<close> of the data model, with the protocol
  handle of an opaque type, and the wallet store that maps a wallet id to its session. The
  source of the store is missing.
\<close>

record 'h WalletSession =
  walletId :: wallet_ident
  protocolHandle :: 'h
  onchainAddress :: string
  offchainAddress :: string
  lastKnownBalance :: "Balance option"

type_synonym 'h wallet_store = "wallet_ident \<rightharpoonup> 'h WalletSession"

text \<open>
  Modelled from the spec: \<open>insert(session) -> Result<(), DuplicateId>\<close> of the wallet
  store, which fails if the wallet id is already present. The store after the call is
  returned beside the result.
\<close>

definition insert_session ::
  "'h WalletSession \<Rightarrow> 'h wallet_store \<Rightarrow> 'h wallet_store \<times> (service_error + unit)" where
  "insert_session s reg =
     (case reg (walletId s) of
        Some old \<Rightarrow> (reg, Inl DuplicateId)
      | None \<Rightarrow> (reg(walletId s \<mapsto> s), Inr ()))"

text \<open>
  Modelled from the spec: \<open>get(walletId) -> Result<SessionRef, NotFound>\<close> of the
  wallet store.
\<close>

definition get_session ::
  "wallet_ident \<Rightarrow> 'h wallet_store \<Rightarrow> service_error + 'h WalletSession" where
  "get_session w reg = (case reg w of None \<Rightarrow> Inl NotFound | Some s \<Rightarrow> Inr s)"

text \<open>Modelled from the spec: \<open>remove(walletId)\<close> of the wallet store, which evicts.\<close>

definition remove_session :: "wallet_ident \<Rightarrow> 'h wallet_store \<Rightarrow> 'h wallet_store" where
  "remove_session w reg = reg(w := None)"

text \<open>
  Modelled from the spec: the mutation of a session in place that settlement, payment and
  balance refresh perform, the update of the cached balance. The identity of the session
  stays.
\<close>

definition cache_balance ::
  "wallet_ident \<Rightarrow> Balance \<Rightarrow> 'h wallet_store \<Rightarrow> 'h wallet_store" where
  "cache_balance w b reg =
     (case reg w of
        None \<Rightarrow> reg
      | Some s \<Rightarrow> reg(w \<mapsto> s\<lparr>lastKnownBalance := Some b\<rparr>))"

text \<open>
  Modelled from the spec: the registry states that can arise, from the empty store by
  insertion, eviction and the update of a cached balance.
\<close>

inductive reachable :: "'h wallet_store \<Rightarrow> bool" where
  initial: "reachable Map.empty"
| inserted: "reachable reg \<Longrightarrow> reachable (fst (insert_session s reg))"
| removed: "reachable reg \<Longrightarrow> reachable (remove_session w reg)"
| cached: "reachable reg \<Longrightarrow> reachable (cache_balance w b reg)"

text \<open>
  Modelled from the spec: the part of the protocol client adapter a payment uses. The
  adapter is a collaborator outside the repository, so it is a parameter: whether a
  destination parses as an offchain address, \<open>queryBalance\<close> and \<open>sendOffchain\<close>,
  which yields a transaction id or fails. The state of the network the adapter talks to is
  of type \<open>'w\<close>.
\<close>

record ('h, 'w) adapter =
  validAddress :: "string \<Rightarrow> bool"
  queryBalance :: "'h \<Rightarrow> 'w \<Rightarrow> raw_balance option"
  sendOffchain :: "'h \<Rightarrow> string \<Rightarrow> int \<Rightarrow> 'w \<Rightarrow> string option \<times> 'w"

text \<open>
  Modelled from the spec: the calls that reach the adapter, and the state of the service:
  the wallet store, the wallet ids whose exclusive lock is held, the network, and the
  calls made so far in their order.
\<close>

datatype 'h adapter_call = QueryBalance 'h | SendOffchain 'h string int

fun is_send :: "'h adapter_call \<Rightarrow> bool" where
  "is_send (SendOffchain h dest amt) = True"
| "is_send (QueryBalance h) = False"

record ('h, 'w) service =
  store :: "'h wallet_store"
  locks :: "wallet_ident set"
  world :: 'w
  calls :: "'h adapter_call list"

text \<open>
  Modelled from the spec: the lock manager, one exclusive lock per wallet id. Acquiring a
  lock that is held reports contention; releasing gives it back.
\<close>

definition acquire :: "wallet_ident \<Rightarrow> ('h, 'w) service \<Rightarrow> ('h, 'w) service option" where
  "acquire w sv = (if w \<in> locks sv then None else Some (sv\<lparr>locks := insert w (locks sv)\<rparr>))"

definition release :: "wallet_ident \<Rightarrow> ('h, 'w) service \<Rightarrow> ('h, 'w) service" where
  "release w sv = sv\<lparr>locks := locks sv - {w}\<rparr>"

text \<open>
  Modelled from the spec: a balance query, the adapter's report passed through the
  aggregator. The call is recorded.
\<close>

definition current_balance ::
  "('h, 'w) adapter \<Rightarrow> 'h \<Rightarrow> ('h, 'w) service
     \<Rightarrow> ('h, 'w) service \<times> (service_error + Balance)" where
  "current_balance ad h sv =
     (let sv' = sv\<lparr>calls := calls sv @ [QueryBalance h]\<rparr> in
      case queryBalance ad h (world sv') of
        None \<Rightarrow> (sv', Inl AdapterUnavailable)
      | Some raw \<Rightarrow> (sv', aggregate raw))"

text \<open>
  Modelled from the spec: \<open>sendToAddress\<close> of the orchestration service, whose source
  is missing. A destination that does not parse fails before any lock is taken. Then the
  operation takes the exclusive lock of the wallet, looks the session up, checks the
  amount against the spendable offchain balance queried under the lock, invokes the
  adapter's offchain send, updates the cached balance, and releases the lock on every
  path.
\<close>

definition sendToAddress ::
  "('h, 'w) adapter \<Rightarrow> wallet_ident \<Rightarrow> string \<Rightarrow> int \<Rightarrow> ('h, 'w) service
     \<Rightarrow> ('h, 'w) service \<times> (service_error + string)" where
  "sendToAddress ad w dest amt sv =
     (if \<not> validAddress ad dest then (sv, Inl InvalidAddress)
      else case acquire w sv of
        None \<Rightarrow> (sv, Inl Busy)
      | Some sv1 \<Rightarrow>
          (case get_session w (store sv1) of
             Inl e \<Rightarrow> (release w sv1, Inl e)
           | Inr s \<Rightarrow>
               (case current_balance ad (protocolHandle s) sv1 of
                  (sv2, Inl e) \<Rightarrow> (release w sv2, Inl e)
                | (sv2, Inr b) \<Rightarrow>
                    if amt \<le> 0 \<or> offchain_domain.spendable (offchain b) < amt then
                      (release w sv2, Inl InsufficientFunds)
                    else
                      (let sv3 = sv2\<lparr>calls := calls sv2
                                       @ [SendOffchain (protocolHandle s) dest amt]\<rparr> in
                       case sendOffchain ad (protocolHandle s) dest amt (world sv3) of
                         (None, wd) \<Rightarrow> (release w (sv3\<lparr>world := wd\<rparr>), Inl SendFailed)
                       | (Some txid, wd) \<Rightarrow>
                           (case current_balance ad (protocolHandle s)
                                   (sv3\<lparr>world := wd\<rparr>) of
                              (sv4, Inl e) \<Rightarrow> (release w sv4, Inr txid)
                            | (sv4, Inr b') \<Rightarrow>
                                (release w (sv4\<lparr>store := cache_balance w b' (store sv4)\<rparr>),
                                 Inr txid))))))"

text \<open>
  Modelled from the spec: the current spendable offchain balance of a wallet, what the
  adapter reports for its session now, if the session exists and the report is well
  formed.
\<close>

definition offchain_spendable_now ::
  "('h, 'w) adapter \<Rightarrow> wallet_ident \<Rightarrow> ('h, 'w) service \<Rightarrow> int option" where
  "offchain_spendable_now ad w sv =
     (case store sv w of
        None \<Rightarrow> None
      | Some s \<Rightarrow>
          (case queryBalance ad (protocolHandle s) (world sv) of
             None \<Rightarrow> None
           | Some raw \<Rightarrow>
               (case aggregate raw of
                  Inl e \<Rightarrow> None
                | Inr b \<Rightarrow> Some (offchain_domain.spendable (offchain b)))))"

section \<open>Properties of the send dialog\<close>

lemma trim_blank:
  assumes "blank s"
  shows "trim s = []"
proof -
  from assms have start: "dropWhile is_whitespace s = []"
    by (induction s) (simp_all add: blank_def)
  show ?thesis unfolding trim_def start by simp
qed

lemma requests_append: "requests (xs @ ys) = requests xs @ requests ys"
  by (induction xs rule: requests.induct) simp_all

lemma send_payment_offchain:
  assumes "paymentType st = lit ''offchain''"
  shows "(snd (send_payment w res st) = None) = has_txid res"
  using assms
  by (auto simp: send_payment_def has_txid_def Let_def split: fetch_result.splits sum.splits)

lemma send_payment_onchain:
  assumes "paymentType st \<noteq> lit ''offchain''"
  shows "snd (send_payment w res st) = None \<and> requests (fst (send_payment w res st)) = []"
  using assms by (simp add: send_payment_def)

text \<open>
  Two runs of an offchain payment: one that the backend accepts, one that it refuses with
  an error text.
\<close>

lemma handleSend_accepted_example:
  "handleSend (lit ''w1'') (Response True (Inr (JObj [(lit ''txid'', JStr (lit ''ab''))])))
     \<lparr>address = lit ''tark1'', amount = lit ''0.5'',
       paymentType = lit ''offchain'', isLoading = False\<rparr>
   = (\<lparr>address = [], amount = [], paymentType = lit ''offchain'', isLoading = False\<rparr>,
      [Fetch (POST_send_to_ark_address (lit ''w1'') (lit ''tark1'') (lit ''0.5'')),
       ToastSuccess (lit ''Payment Sent'') (Msg (lit ''0.5 BTC sent to tark1...'')),
       OnSuccess, OnClose])"
  by (simp add: handleSend_def send_payment_def sent_description_def trim_def
      is_whitespace_def js_whitespace_def lit_def)

lemma handleSend_refused_example:
  "handleSend (lit ''w1'')
     (Response False (Inr (JObj [(lit ''error'', JStr (lit ''no funds''))])))
     \<lparr>address = lit ''tark1'', amount = lit ''0.5'',
       paymentType = lit ''offchain'', isLoading = False\<rparr>
   = (\<lparr>address = lit ''tark1'', amount = lit ''0.5'',
        paymentType = lit ''offchain'', isLoading = False\<rparr>,
      [Fetch (POST_send_to_ark_address (lit ''w1'') (lit ''tark1'') (lit ''0.5'')),
       ToastError (lit ''Error'') (MsgOf (JStr (lit ''no funds'')))])"
  by (simp add: handleSend_def send_payment_def error_or_def trim_def
      is_whitespace_def js_whitespace_def lit_def)

text \<open>
  C8. When the recipient address or the amount in the send dialog is empty or holds white
  space only, \<open>handleSend\<close> sends no request to any endpoint and leaves the state of
  the dialog as it was: the check of the inputs comes before every network call.
\<close>

theorem handleSend_blank_sends_nothing:
  assumes "blank (address st) \<or> blank (amount st)"
  shows "requests (snd (handleSend w res st)) = [] \<and> fst (handleSend w res st) = st"
proof -
  from assms have "trim (address st) = [] \<or> trim (amount st) = []"
    by (auto dest: trim_blank)
  then show ?thesis
    by (simp add: handleSend_def)
qed

theorem handleSend_blank_sends_nothing_witness:
  "blank (address \<lparr>address = lit '' '', amount = lit ''0.5'',
                    paymentType = lit ''offchain'', isLoading = False\<rparr>)
   \<and> requests (snd (handleSend (lit ''w1'')
        (Response True (Inr (JObj [(lit ''txid'', JStr (lit ''ab''))])))
        \<lparr>address = lit '' '', amount = lit ''0.5'',
          paymentType = lit ''offchain'', isLoading = False\<rparr>)) = []"
  using handleSend_blank_sends_nothing
    [of "\<lparr>address = lit '' '', amount = lit ''0.5'',
           paymentType = lit ''offchain'', isLoading = False\<rparr>"
        "lit ''w1''" "Response True (Inr (JObj [(lit ''txid'', JStr (lit ''ab''))]))"]
  by (simp add: blank_def lit_def is_whitespace_def js_whitespace_def)

text \<open>
  C9, as stated, fails: with the payment type \<open>onchain\<close> the dialog sends nothing, so
  no response carries a \<open>txid\<close>, and it still clears the address and the amount.
\<close>

theorem handleSend_onchain_counterexample:
  "\<not> has_txid (Response True (Inr (JObj [(lit ''error'', JStr (lit ''no''))])))
   \<and> handleSend (lit ''w1'') (Response True (Inr (JObj [(lit ''error'', JStr (lit ''no''))])))
        \<lparr>address = lit ''tark1'', amount = lit ''0.5'',
          paymentType = lit ''onchain'', isLoading = False\<rparr>
     = (\<lparr>address = [], amount = [], paymentType = lit ''onchain'', isLoading = False\<rparr>,
        [Sleep 1500,
         ToastSuccess (lit ''Onchain Payment Sent'') (Msg (lit ''0.5 BTC sent to tark1...'')),
         OnSuccess, OnClose])"
  by (simp add: has_txid_def handleSend_def send_payment_def sent_description_def trim_def
      is_whitespace_def js_whitespace_def lit_def)

text \<open>
  C9, amended. For an offchain payment the send dialog clears the entered address and
  amount exactly when both inputs are filled in and the response to
  \<open>send_to_ark_address\<close> carries a truthy \<open>txid\<close>; on every failure (a rejected
  request, a body that does not parse, a response without \<open>txid\<close>) both values stay as
  they were. For any other payment type, the onchain placeholder, it clears both whenever
  they are filled in, and sends no request.
\<close>

theorem handleSend_clears_inputs:
  fixes st :: send_modal_state and w :: jsstring and res :: "jsval fetch_result"
  defines "st' \<equiv> fst (handleSend w res st)"
  defines "filled \<equiv> trim (address st) \<noteq> [] \<and> trim (amount st) \<noteq> []"
  shows "(paymentType st = lit ''offchain'' \<longrightarrow>
            (if filled \<and> has_txid res
             then address st' = [] \<and> amount st' = []
             else address st' = address st \<and> amount st' = amount st))
       \<and> (paymentType st \<noteq> lit ''offchain'' \<longrightarrow>
            (if filled
             then address st' = [] \<and> amount st' = [] \<and> requests (snd (handleSend w res st)) = []
             else address st' = address st \<and> amount st' = amount st))"
proof (intro conjI impI)
  assume "paymentType st = lit ''offchain''"
  then have "(snd (send_payment w res (st\<lparr>send_modal_state.isLoading := True\<rparr>)) = None)
      = has_txid res"
    by (simp add: send_payment_offchain)
  then show "if filled \<and> has_txid res
             then address st' = [] \<and> amount st' = []
             else address st' = address st \<and> amount st' = amount st"
    by (auto simp: st'_def filled_def handleSend_def split: prod.splits option.splits)
next
  assume "paymentType st \<noteq> lit ''offchain''"
  then have "snd (send_payment w res (st\<lparr>send_modal_state.isLoading := True\<rparr>)) = None
      \<and> requests (fst (send_payment w res (st\<lparr>send_modal_state.isLoading := True\<rparr>))) = []"
    by (simp add: send_payment_onchain)
  then show "if filled
             then address st' = [] \<and> amount st' = [] \<and> requests (snd (handleSend w res st)) = []
             else address st' = address st \<and> amount st' = amount st"
    by (auto simp: st'_def filled_def handleSend_def requests_append
        split: prod.splits option.splits)
qed

theorem handleSend_clears_inputs_witness:
  "has_txid (Response True (Inr (JObj [(lit ''txid'', JStr (lit ''ab''))])))
   \<and> address (fst (handleSend (lit ''w1'')
        (Response True (Inr (JObj [(lit ''txid'', JStr (lit ''ab''))])))
        \<lparr>address = lit ''tark1'', amount = lit ''0.5'',
          paymentType = lit ''offchain'', isLoading = False\<rparr>)) = []
   \<and> \<not> has_txid (Response True (Inr (JObj [(lit ''error'', JStr (lit ''no''))])))
   \<and> address (fst (handleSend (lit ''w1'')
        (Response True (Inr (JObj [(lit ''error'', JStr (lit ''no''))])))
        \<lparr>address = lit ''tark1'', amount = lit ''0.5'',
          paymentType = lit ''offchain'', isLoading = False\<rparr>)) = lit ''tark1''
   \<and> amount (fst (handleSend (lit ''w1'') (Rejected (ErrorObject EngineMsg))
        \<lparr>address = lit ''tark1'', amount = lit ''0.5'',
          paymentType = lit ''offchain'', isLoading = False\<rparr>)) = lit ''0.5''
   \<and> amount (fst (handleSend (lit ''w1'') (Rejected (ErrorObject EngineMsg))
        \<lparr>address = lit ''tark1'', amount = lit ''0.5'',
          paymentType = lit ''onchain'', isLoading = False\<rparr>)) = []"
  using
    handleSend_clears_inputs
      [of "\<lparr>address = lit ''tark1'', amount = lit ''0.5'',
             paymentType = lit ''offchain'', isLoading = False\<rparr>"
          "Response True (Inr (JObj [(lit ''txid'', JStr (lit ''ab''))]))" "lit ''w1''"]
    handleSend_clears_inputs
      [of "\<lparr>address = lit ''tark1'', amount = lit ''0.5'',
             paymentType = lit ''offchain'', isLoading = False\<rparr>"
          "Response True (Inr (JObj [(lit ''error'', JStr (lit ''no''))]))" "lit ''w1''"]
    handleSend_clears_inputs
      [of "\<lparr>address = lit ''tark1'', amount = lit ''0.5'',
             paymentType = lit ''offchain'', isLoading = False\<rparr>"
          "Rejected (ErrorObject EngineMsg)" "lit ''w1''"]
    handleSend_clears_inputs
      [of "\<lparr>address = lit ''tark1'', amount = lit ''0.5'',
             paymentType = lit ''onchain'', isLoading = False\<rparr>"
          "Rejected (ErrorObject EngineMsg)" "lit ''w1''"]
  by (simp add: has_txid_def trim_def is_whitespace_def js_whitespace_def lit_def)

section \<open>Properties of the wallet page\<close>

lemma fetchBalance_requests:
  "requests (snd (fetchBalance i res st)) = [GET_get_balance (JStr i)]"
  by (simp add: fetchBalance_def Let_def split: fetch_result.splits sum.splits)

lemma handleSettle_requests:
  "requests (snd (handleSettle res st)) =
     (case wallet_page_state.walletId st of
        None \<Rightarrow> []
      | Some w \<Rightarrow> if w = [] then [] else [POST_settle w])"
  by (simp add: handleSettle_def Let_def split: option.splits)

lemma mount_onchainAddress:
  assumes "snd (mount storage res st) \<noteq> [RouterPush (lit ''/'')]"
  shows "wallet_page_state.onchainAddress (fst (mount storage res st))
           = storage (lit ''onchain_address'')"
  using assms
  by (auto simp: mount_def Let_def fetchBalance_def
      split: option.splits fetch_result.splits sum.splits)

text \<open>
  C10. The requests \<open>handleFaucet\<close> sends are: none when no onchain address is in the
  state (or an empty one), and otherwise exactly one, which posts that address with the
  amount 0.0001. Without an address the handler returns at once, with no effect at all.
\<close>

theorem handleFaucet_posts_stored_address:
  "requests (snd (handleFaucet res st)) =
     (case wallet_page_state.onchainAddress st of
        None \<Rightarrow> []
      | Some a \<Rightarrow> if a = [] then [] else [POST_faucet a (1 / 10000)])
   \<and> (wallet_page_state.onchainAddress st = None \<longrightarrow> handleFaucet res st = (st, []))"
  by (simp add: handleFaucet_def Let_def split: option.splits)

theorem handleFaucet_posts_stored_address_witness:
  "requests (snd (handleFaucet (Response True (Inr (JObj [(lit ''success'', JBool True)])))
      \<lparr>wallet_page_state.walletId = Some (lit ''w1''), wallet_page_state.onchainAddress = Some (lit ''bcrt1q''),
        wallet_page_state.offchainAddress = Some (lit ''tark1''), balance = None, isLoading = False,
        isSendModalOpen = False, isReceiveModalOpen = False\<rparr>))
     = [POST_faucet (lit ''bcrt1q'') (1 / 10000)]
   \<and> wallet_page_state.onchainAddress
        \<lparr>wallet_page_state.walletId = Some (lit ''w1''), wallet_page_state.onchainAddress = None,
          wallet_page_state.offchainAddress = Some (lit ''tark1''), balance = None, isLoading = False,
          isSendModalOpen = False, isReceiveModalOpen = False\<rparr> = None
   \<and> snd (handleFaucet (Response True (Inr (JObj [(lit ''success'', JBool True)])))
        \<lparr>wallet_page_state.walletId = Some (lit ''w1''), wallet_page_state.onchainAddress = None,
          wallet_page_state.offchainAddress = Some (lit ''tark1''), balance = None, isLoading = False,
          isSendModalOpen = False, isReceiveModalOpen = False\<rparr>) = []"
  using
    handleFaucet_posts_stored_address
      [of "Response True (Inr (JObj [(lit ''success'', JBool True)]))"
          "\<lparr>wallet_page_state.walletId = Some (lit ''w1''), wallet_page_state.onchainAddress = Some (lit ''bcrt1q''),
             wallet_page_state.offchainAddress = Some (lit ''tark1''), balance = None, isLoading = False,
             isSendModalOpen = False, isReceiveModalOpen = False\<rparr>"]
    handleFaucet_posts_stored_address
      [of "Response True (Inr (JObj [(lit ''success'', JBool True)]))"
          "\<lparr>wallet_page_state.walletId = Some (lit ''w1''), wallet_page_state.onchainAddress = None,
             wallet_page_state.offchainAddress = Some (lit ''tark1''), balance = None, isLoading = False,
             isSendModalOpen = False, isReceiveModalOpen = False\<rparr>"]
  by (simp add: lit_def)









text \<open>
  The sum of the doubles nearest to 0.1 and 0.2 is the double 0.30000000000000004, which
  the page shows as 0.30000000.
\<close>

lemma js_add_rounds_example:
  "round_to_double (1 / 10) = Finite (3602879701896397 / 36028797018963968)
   \<and> round_to_double (2 / 10) = Finite (3602879701896397 / 18014398509481984)
   \<and> js_add (Finite (3602879701896397 / 36028797018963968))
            (Finite (3602879701896397 / 18014398509481984))
       = Finite (1351079888211149 / 4503599627370496)
   \<and> toFixed8 (Finite (1351079888211149 / 4503599627370496)) = Text (lit ''0.30000000'')"
  by code_simp

text \<open>
  Where the exact sum lies halfway between two doubles the one with the even significand
  is taken: \<open>2 ^ 53 + 1\<close> is \<open>2 ^ 53\<close>, and \<open>2 ^ 53 + 3\<close> is
  \<open>2 ^ 53 + 4\<close>.
\<close>

lemma js_add_ties_example:
  "js_add (Finite 9007199254740992) (Finite 1) = Finite 9007199254740992
   \<and> js_add (Finite 9007199254740992) (Finite 3) = Finite 9007199254740996"
  by code_simp




section \<open>Properties of the two forms\<close>


lemma reported_append: "reported (xs @ ys) = reported xs @ reported ys"
  by (induction xs rule: reported.induct) simp_all


lemma restore_wallet_reported:
  "reported (handleRestoreWallet w get_address) =
     (if trim w = [] then []
      else case get_address (JStr w) of
             Rejected t \<Rightarrow> []
           | Response okay body \<Rightarrow>
               (case body of
                  Inl t \<Rightarrow> []
                | Inr d \<Rightarrow>
                    (case get_prop d (lit ''onchain_address'') of
                       Inl t \<Rightarrow> []
                     | Inr on \<Rightarrow>
                         (case get_prop d (lit ''offchain_address'') of
                            Inl t \<Rightarrow> []
                          | Inr off \<Rightarrow>
                              if okay \<and> truthy on \<and> truthy off then [(JStr w, on, off)]
                              else []))))"
  by (simp add: handleRestoreWallet_def restore_wallet_def await_ok_json_def reported_append
      split: fetch_result.splits sum.splits)

text \<open>
  What the restore form reports follows the answer of the backend at the time of the
  restore: a backend that answers the same request with other addresses then makes the
  form report those.
\<close>

lemma restore_follows_backend_example:
  "reported (handleRestoreWallet (lit ''w1'')
       (\<lambda>v. Response True (Inr (JObj [(lit ''onchain_address'', JStr (lit ''bcrt1x'')),
                                        (lit ''offchain_address'', JStr (lit ''tark1x''))]))))
     = [(JStr (lit ''w1''), JStr (lit ''bcrt1x''), JStr (lit ''tark1x''))]"
  by (simp add: restore_wallet_reported trim_def is_whitespace_def js_whitespace_def lit_def)




section \<open>Properties of the orchestration core\<close>

lemma aggregate_nonnegative:
  assumes "aggregate r = Inr b"
  shows "0 \<le> offchain_domain.spendable (offchain b)
       \<and> 0 \<le> boarding_domain.spendable (boarding b)
       \<and> 0 \<le> offchain_domain.spendable (offchain b) + boarding_domain.spendable (boarding b)"
  using assms by (auto simp: aggregate_def split: if_splits)

lemma reachable_keys:
  "reachable reg \<Longrightarrow> reg w = Some s \<Longrightarrow> WalletSession.walletId s = w"
proof (induction arbitrary: w s rule: reachable.induct)
  case initial
  then show ?case by simp
next
  case (inserted reg s')
  then show ?case
    by (auto simp: insert_session_def split: option.splits if_splits)
next
  case (removed reg w')
  then show ?case
    by (auto simp: remove_session_def split: if_splits)
next
  case (cached reg w' b)
  then show ?case
    by (auto simp: cache_balance_def split: option.splits if_splits)
qed

text \<open>
  C7. In every reachable state of the registry, two stored sessions with the same wallet
  id are one session under one key; and inserting a session whose wallet id is present
  fails with \<open>DuplicateId\<close>, leaves the registry as it was, and the session stored
  under that id is still the old one.
\<close>

theorem wallet_store_unique:
  assumes "reachable reg"
  shows "(reg w = Some s \<and> reg w' = Some s'
            \<and> WalletSession.walletId s = WalletSession.walletId s' \<longrightarrow> w = w' \<and> s = s')
       \<and> (reg (WalletSession.walletId new) = Some old \<longrightarrow>
            insert_session new reg = (reg, Inl DuplicateId)
            \<and> get_session (WalletSession.walletId new) (fst (insert_session new reg))
                = Inr old)"
proof (intro conjI impI)
  assume both: "reg w = Some s \<and> reg w' = Some s'
      \<and> WalletSession.walletId s = WalletSession.walletId s'"
  with assms have "WalletSession.walletId s = w" and "WalletSession.walletId s' = w'"
    by (auto dest: reachable_keys)
  with both have same: "w = w'" by simp
  then show "w = w'" .
  from both same have "Some s = Some s'" by metis
  then show "s = s'" by simp
next
  assume "reg (WalletSession.walletId new) = Some old"
  then show "insert_session new reg = (reg, Inl DuplicateId)"
    and "get_session (WalletSession.walletId new) (fst (insert_session new reg)) = Inr old"
    by (simp_all add: insert_session_def get_session_def)
qed

theorem wallet_store_unique_witness:
  "reachable (fst (insert_session
       \<lparr>walletId = ''w1'', protocolHandle = 1::nat, onchainAddress = ''bcrt1qa'',
         offchainAddress = ''tark1a'', lastKnownBalance = None\<rparr> Map.empty))
   \<and> insert_session
       \<lparr>walletId = ''w1'', protocolHandle = 2::nat, onchainAddress = ''bcrt1qb'',
         offchainAddress = ''tark1b'', lastKnownBalance = None\<rparr>
       (fst (insert_session
         \<lparr>walletId = ''w1'', protocolHandle = 1::nat, onchainAddress = ''bcrt1qa'',
           offchainAddress = ''tark1a'', lastKnownBalance = None\<rparr> Map.empty))
     = (fst (insert_session
         \<lparr>walletId = ''w1'', protocolHandle = 1::nat, onchainAddress = ''bcrt1qa'',
           offchainAddress = ''tark1a'', lastKnownBalance = None\<rparr> Map.empty),
        Inl DuplicateId)
   \<and> get_session ''w1''
       (fst (insert_session
         \<lparr>walletId = ''w1'', protocolHandle = 2::nat, onchainAddress = ''bcrt1qb'',
           offchainAddress = ''tark1b'', lastKnownBalance = None\<rparr>
         (fst (insert_session
           \<lparr>walletId = ''w1'', protocolHandle = 1::nat, onchainAddress = ''bcrt1qa'',
             offchainAddress = ''tark1a'', lastKnownBalance = None\<rparr> Map.empty))))
     = Inr \<lparr>walletId = ''w1'', protocolHandle = 1::nat, onchainAddress = ''bcrt1qa'',
             offchainAddress = ''tark1a'', lastKnownBalance = None\<rparr>"
proof -
  let ?a = "\<lparr>walletId = ''w1'', protocolHandle = 1::nat, onchainAddress = ''bcrt1qa'',
         offchainAddress = ''tark1a'', lastKnownBalance = None\<rparr>"
  let ?b = "\<lparr>walletId = ''w1'', protocolHandle = 2::nat, onchainAddress = ''bcrt1qb'',
         offchainAddress = ''tark1b'', lastKnownBalance = None\<rparr>"
  have r: "reachable (fst (insert_session ?a Map.empty))"
    by (rule reachable.inserted) (rule reachable.initial)
  have present: "fst (insert_session ?a Map.empty) (WalletSession.walletId ?b) = Some ?a"
    by (simp add: insert_session_def)
  have key: "WalletSession.walletId ?b = ''w1''" by simp
  from wallet_store_unique [OF r, of _ _ _ _ ?b ?a] present r show ?thesis
    unfolding key by blast
qed

lemma sendToAddress_bad_amount:
  assumes "amt \<le> 0 \<or> (\<exists>sp. offchain_spendable_now ad w sv = Some sp \<and> sp < amt)"
  shows "filter is_send (calls (fst (sendToAddress ad w dest amt sv))) = filter is_send (calls sv)"
    and "\<exists>e. snd (sendToAddress ad w dest amt sv) = Inl e"
  using assms
  by (auto simp: sendToAddress_def offchain_spendable_now_def acquire_def release_def
      get_session_def current_balance_def Let_def
      split: option.splits sum.splits prod.splits)

lemma sendToAddress_insufficient:
  assumes "amt \<le> 0 \<or> (\<exists>sp. offchain_spendable_now ad w sv = Some sp \<and> sp < amt)"
    and "validAddress ad dest" and "w \<notin> locks sv"
    and "offchain_spendable_now ad w sv \<noteq> None"
  shows "snd (sendToAddress ad w dest amt sv) = Inl InsufficientFunds"
    and "locks (fst (sendToAddress ad w dest amt sv)) = locks sv"
    and "store (fst (sendToAddress ad w dest amt sv)) = store sv"
  using assms
  by (auto simp: sendToAddress_def offchain_spendable_now_def acquire_def release_def
      get_session_def current_balance_def Let_def
      split: option.splits sum.splits prod.splits)

text \<open>
  C3. A payment whose amount is zero, negative, or greater than the spendable offchain
  balance the adapter reports for the wallet fails, and no send call reaches the adapter.
  When the destination is valid, the lock of the wallet is free and the wallet has a
  balance, the failure is \<open>InsufficientFunds\<close>, found after the lock was taken, and
  the lock is free again afterwards with the store as it was.
\<close>

theorem sendToAddress_validates_amount:
  assumes "amt \<le> 0 \<or> (\<exists>sp. offchain_spendable_now ad w sv = Some sp \<and> sp < amt)"
  shows "filter is_send (calls (fst (sendToAddress ad w dest amt sv))) = filter is_send (calls sv)
       \<and> (\<exists>e. snd (sendToAddress ad w dest amt sv) = Inl e)
       \<and> (validAddress ad dest \<and> w \<notin> locks sv \<and> offchain_spendable_now ad w sv \<noteq> None \<longrightarrow>
            snd (sendToAddress ad w dest amt sv) = Inl InsufficientFunds
            \<and> locks (fst (sendToAddress ad w dest amt sv)) = locks sv
            \<and> store (fst (sendToAddress ad w dest amt sv)) = store sv)"
  using sendToAddress_bad_amount [OF assms] sendToAddress_insufficient [OF assms]
  by blast

text \<open>
  The witness runs the service on a network whose state is the spendable offchain balance
  of its single wallet: with 5000 base units a payment of 7000 is refused, and a payment
  of 1000 is sent.
\<close>

theorem sendToAddress_validates_amount_witness:
  "offchain_spendable_now
       \<lparr>validAddress = (\<lambda>a. a \<noteq> []),
         queryBalance = (\<lambda>h wd. Some \<lparr>offchainSpendable = wd, offchainExpired = 0,
            boardingSpendable = 0, boardingExpired = 0, boardingPending = 0\<rparr>),
         sendOffchain = (\<lambda>h dest amt wd. (Some ''tx1'', wd - amt))\<rparr>
       ''w1''
       \<lparr>store = [''w1'' \<mapsto> \<lparr>walletId = ''w1'', protocolHandle = 1::nat,
            onchainAddress = ''bcrt1qa'', offchainAddress = ''tark1a'',
            lastKnownBalance = None\<rparr>],
         locks = {}, world = 5000::int, calls = []\<rparr> = Some 5000
   \<and> (5000::int) < 7000
   \<and> snd (sendToAddress
       \<lparr>validAddress = (\<lambda>a. a \<noteq> []),
         queryBalance = (\<lambda>h wd. Some \<lparr>offchainSpendable = wd, offchainExpired = 0,
            boardingSpendable = 0, boardingExpired = 0, boardingPending = 0\<rparr>),
         sendOffchain = (\<lambda>h dest amt wd. (Some ''tx1'', wd - amt))\<rparr>
       ''w1'' ''tark1b'' 7000
       \<lparr>store = [''w1'' \<mapsto> \<lparr>walletId = ''w1'', protocolHandle = 1::nat,
            onchainAddress = ''bcrt1qa'', offchainAddress = ''tark1a'',
            lastKnownBalance = None\<rparr>],
         locks = {}, world = 5000::int, calls = []\<rparr>) = Inl InsufficientFunds
   \<and> filter is_send (calls (fst (sendToAddress
       \<lparr>validAddress = (\<lambda>a. a \<noteq> []),
         queryBalance = (\<lambda>h wd. Some \<lparr>offchainSpendable = wd, offchainExpired = 0,
            boardingSpendable = 0, boardingExpired = 0, boardingPending = 0\<rparr>),
         sendOffchain = (\<lambda>h dest amt wd. (Some ''tx1'', wd - amt))\<rparr>
       ''w1'' ''tark1b'' 7000
       \<lparr>store = [''w1'' \<mapsto> \<lparr>walletId = ''w1'', protocolHandle = 1::nat,
            onchainAddress = ''bcrt1qa'', offchainAddress = ''tark1a'',
            lastKnownBalance = None\<rparr>],
         locks = {}, world = 5000::int, calls = []\<rparr>))) = []"
proof -
  let ?ad = "\<lparr>validAddress = (\<lambda>a. a \<noteq> []),
         queryBalance = (\<lambda>h wd. Some \<lparr>offchainSpendable = wd, offchainExpired = 0,
            boardingSpendable = 0, boardingExpired = 0, boardingPending = 0\<rparr>),
         sendOffchain = (\<lambda>h dest amt wd. (Some ''tx1'', wd - amt))\<rparr>
       :: (nat, int) adapter"
  let ?sv = "\<lparr>store = [''w1'' \<mapsto> \<lparr>walletId = ''w1'', protocolHandle = 1::nat,
            onchainAddress = ''bcrt1qa'', offchainAddress = ''tark1a'',
            lastKnownBalance = None\<rparr>],
         locks = {}, world = 5000::int, calls = []\<rparr>"
  have now: "offchain_spendable_now ?ad ''w1'' ?sv = Some 5000"
    by (simp add: offchain_spendable_now_def aggregate_def)
  then have bad: "(7000::int) \<le> 0 \<or> (\<exists>sp. offchain_spendable_now ?ad ''w1'' ?sv = Some sp \<and> sp < 7000)"
    by simp
  have pre: "validAddress ?ad ''tark1b'' \<and> ''w1'' \<notin> locks ?sv
      \<and> offchain_spendable_now ?ad ''w1'' ?sv \<noteq> None"
    using now by simp
  from sendToAddress_validates_amount [OF bad, of "''tark1b''"] pre now show ?thesis
    by simp
qed

lemma sendToAddress_sends_example:
  "sendToAddress
       \<lparr>validAddress = (\<lambda>a. a \<noteq> []),
         queryBalance = (\<lambda>h wd. Some \<lparr>offchainSpendable = wd, offchainExpired = 0,
            boardingSpendable = 0, boardingExpired = 0, boardingPending = 0\<rparr>),
         sendOffchain = (\<lambda>h dest amt wd. (Some ''tx1'', wd - amt))\<rparr>
       ''w1'' ''tark1b'' 1000
       \<lparr>store = [''w1'' \<mapsto> \<lparr>walletId = ''w1'', protocolHandle = 1::nat,
            onchainAddress = ''bcrt1qa'', offchainAddress = ''tark1a'',
            lastKnownBalance = None\<rparr>],
         locks = {}, world = 5000::int, calls = []\<rparr>
   = (\<lparr>store = [''w1'' \<mapsto> \<lparr>walletId = ''w1'', protocolHandle = 1::nat,
            onchainAddress = ''bcrt1qa'', offchainAddress = ''tark1a'',
            lastKnownBalance = Some \<lparr>offchain = \<lparr>offchain_domain.spendable = 4000, expired = 0\<rparr>,
              boarding = \<lparr>boarding_domain.spendable = 0, expired = 0, pending = 0\<rparr>\<rparr>\<rparr>],
         locks = {}, world = 4000, calls = [QueryBalance 1, SendOffchain 1 ''tark1b'' 1000, QueryBalance 1]\<rparr>,
      Inr ''tx1'')"
  by (simp add: sendToAddress_def acquire_def release_def get_session_def current_balance_def
      aggregate_def cache_balance_def)

end
